theory Spec2Isabelle
  imports Main "HOL-Library.Char_ord" "HOL-Library.List_Lexorder"
begin

section \<open>Python values, strings and errors\<close>

text \<open>
  The checklist tool is written in Python on top of the openpyxl spreadsheet library.
  Exceptions are values of \<open>py_error\<close>; a computation that may raise returns
  \<open>py_error + 'a\<close> with \<open>Inl\<close> for the exception.  Strings are lists of
  8-bit characters; the character predicates below are those of Python's \<open>str\<close>
  on the ASCII range (non-ASCII text is outside the model).
\<close>

datatype py_error = IndexError | ValueError | AttributeError | FileNotFoundError

text \<open>Cell contents: empty, text, a whole number or a truth value (floating point numbers
  and dates are outside the model).\<close>

datatype pyval = PNone | PStr string | PInt int | PBool bool

text \<open>Python's truth value of a cell content, as tested by \<^verbatim>\<open>if cell.value\<close>.\<close>

fun truthy :: "pyval \<Rightarrow> bool" where
  "truthy PNone = False"
| "truthy (PStr s) = (s \<noteq> [])"
| "truthy (PInt n) = (n \<noteq> 0)"
| "truthy (PBool b) = b"

definition isspace :: "char \<Rightarrow> bool" where
  "isspace c = (let n = (of_char c :: nat) in (9 \<le> n \<and> n \<le> 13) \<or> (28 \<le> n \<and> n \<le> 32))"

definition isupper :: "char \<Rightarrow> bool" where
  "isupper c = (let n = (of_char c :: nat) in 65 \<le> n \<and> n \<le> 90)"

definition islower :: "char \<Rightarrow> bool" where
  "islower c = (let n = (of_char c :: nat) in 97 \<le> n \<and> n \<le> 122)"

definition isalpha :: "char \<Rightarrow> bool" where
  "isalpha c = (isupper c \<or> islower c)"

definition isdigit :: "char \<Rightarrow> bool" where
  "isdigit c = (let n = (of_char c :: nat) in 48 \<le> n \<and> n \<le> 57)"

definition to_upper :: "char \<Rightarrow> char" where
  "to_upper c = (if islower c then char_of (of_char c - (32::nat)) else c)"

definition to_lower :: "char \<Rightarrow> char" where
  "to_lower c = (if isupper c then char_of (of_char c + (32::nat)) else c)"

definition py_upper :: "string \<Rightarrow> string" where
  "py_upper s = map to_upper s"

definition py_lower :: "string \<Rightarrow> string" where
  "py_lower s = map to_lower s"

definition py_strip :: "string \<Rightarrow> string" where
  "py_strip s = rev (dropWhile isspace (rev (dropWhile isspace s)))"

text \<open>\<^verbatim>\<open>s.split()\<close>: the maximal runs of non-whitespace characters, in order.
  The first argument is the token being read.\<close>

fun split_from :: "string \<Rightarrow> string \<Rightarrow> string list" where
  "split_from cur [] = (if cur = [] then [] else [cur])"
| "split_from cur (c # cs) =
     (if isspace c then (if cur = [] then split_from [] cs else cur # split_from [] cs)
      else split_from (cur @ [c]) cs)"

definition py_split :: "string \<Rightarrow> string list" where
  "py_split s = split_from [] s"

fun py_join :: "string \<Rightarrow> string list \<Rightarrow> string" where
  "py_join sep [] = []"
| "py_join sep [x] = x"
| "py_join sep (x # y # ys) = x @ sep @ py_join sep (y # ys)"

text \<open>Splitting at one separator character (\<^verbatim>\<open>s.split('_')\<close>); never the empty list.\<close>

fun split_on :: "char \<Rightarrow> string \<Rightarrow> string list" where
  "split_on d [] = [[]]"
| "split_on d (c # cs) =
     (if c = d then [] # split_on d cs
      else (case split_on d cs of [] \<Rightarrow> [[c]] | g # gs \<Rightarrow> (c # g) # gs))"

definition digit_val :: "char \<Rightarrow> nat" where
  "digit_val c = of_char c - 48"

definition int_of_digits :: "string \<Rightarrow> nat" where
  "int_of_digits ds = foldl (\<lambda>acc c. 10 * acc + digit_val c) 0 ds"

text \<open>\<^verbatim>\<open>int(s)\<close> for a string: surrounding whitespace, an optional sign, decimal digits,
  single underscores between digits; anything else raises \<open>ValueError\<close>.\<close>

definition py_int :: "string \<Rightarrow> py_error + int" where
  "py_int s =
     (let t = py_strip s;
          neg = (t \<noteq> [] \<and> hd t = CHR ''-'');
          body = (if t \<noteq> [] \<and> (hd t = CHR ''-'' \<or> hd t = CHR ''+'') then tl t else t);
          groups = split_on (CHR ''_'') body
      in if list_all (\<lambda>g. g \<noteq> [] \<and> list_all isdigit g) groups
         then Inr (if neg then - int (int_of_digits (concat groups))
                   else int (int_of_digits (concat groups)))
         else Inl ValueError)"

fun str_nat :: "nat \<Rightarrow> string" where
  "str_nat n =
     (if n < 10 then [char_of (48 + n)] else str_nat (n div 10) @ [char_of (48 + n mod 10)])"

definition str_int :: "int \<Rightarrow> string" where
  "str_int i = (if i < 0 then CHR ''-'' # str_nat (nat (- i)) else str_nat (nat i))"

text \<open>\<^verbatim>\<open>str(value)\<close> of a cell content.\<close>

fun py_str :: "pyval \<Rightarrow> string" where
  "py_str PNone = ''None''"
| "py_str (PStr s) = s"
| "py_str (PInt i) = str_int i"
| "py_str (PBool b) = (if b then ''True'' else ''False'')"

text \<open>\<^verbatim>\<open>Path.stem\<close> of a file name: the name without its last suffix.\<close>

definition path_stem :: "string \<Rightarrow> string" where
  "path_stem nm =
     (if CHR ''.'' \<in> set nm
      then (let i = length nm - 1 - length (takeWhile (\<lambda>c. c \<noteq> CHR ''.'') (rev nm))
            in if 0 < i \<and> i < length nm - 1 then take i nm else nm)
      else nm)"

text \<open>A loop whose body may raise: the first exception ends it.\<close>

fun foldM :: "('a \<Rightarrow> 's \<Rightarrow> py_error + 's) \<Rightarrow> 'a list \<Rightarrow> 's \<Rightarrow> py_error + 's" where
  "foldM f [] s = Inr s"
| "foldM f (x # xs) s = (case f x s of Inl e \<Rightarrow> Inl e | Inr s' \<Rightarrow> foldM f xs s')"


section \<open>Settings (config/settings.py)\<close>

definition INPUT_HEADERS :: "string list" where
  "INPUT_HEADERS =
     [''Date Inspected by who?'', ''OK'', ''OK?'', ''Date Inspected by who'',
      ''What to look for:'', ''What to look for?'']"

definition CATEGORY_COLOR :: string where
  "CATEGORY_COLOR = ''FFFFFF00''"

definition DEFAULT_VALUE :: string where
  "DEFAULT_VALUE = ''no input''"


section \<open>The spreadsheet library (openpyxl)\<close>

text \<open>
  The library is not part of the repository; the functions the tool calls are modelled
  after its documented behaviour.  Column names are the bijective base-26 numerals
  \<open>A\<close> .. \<open>ZZZ\<close> for the indices 1 .. 18278; both conversions raise \<open>ValueError\<close>
  outside that range.
\<close>

definition column_index_from_string :: "string \<Rightarrow> py_error + nat" where
  "column_index_from_string str_col =
     (let u = py_upper str_col
      in if 1 \<le> length u \<and> length u \<le> 3 \<and> list_all isupper u
         then Inr (foldl (\<lambda>acc c. 26 * acc + (of_char c - 64)) 0 u)
         else Inl ValueError)"

function col_letters :: "nat \<Rightarrow> string" where
  "col_letters n =
     (if n = 0 then []
      else if n mod 26 = 0 then col_letters (n div 26 - 1) @ [char_of (26 + 64 :: nat)]
      else col_letters (n div 26) @ [char_of (n mod 26 + 64)])"
  by pat_completeness auto
termination
  by (relation "measure id") auto

definition get_column_letter :: "nat \<Rightarrow> py_error + string" where
  "get_column_letter col_idx =
     (if 1 \<le> col_idx \<and> col_idx \<le> 18278 then Inr (col_letters col_idx) else Inl ValueError)"

record merge_range =
  min_row :: nat
  max_row :: nat
  min_col :: nat
  max_col :: nat

text \<open>
  A worksheet: the value, the bold flag and the fill colour index of every cell, addressed
  by (row, column) from 1; the merged regions; and the extent of the used area.
\<close>

record worksheet =
  vals :: "nat \<times> nat \<Rightarrow> pyval"
  bolds :: "nat \<times> nat \<Rightarrow> bool"
  fills :: "nat \<times> nat \<Rightarrow> string"
  merged_ranges :: "merge_range list"
  ws_max_row :: nat
  ws_max_column :: nat

definition in_range :: "merge_range \<Rightarrow> nat \<Rightarrow> nat \<Rightarrow> bool" where
  "in_range R r c = (min_row R \<le> r \<and> r \<le> max_row R \<and> min_col R \<le> c \<and> c \<le> max_col R)"

text \<open>A member of a merged region other than its top-left cell is a \<open>MergedCell\<close> object:
  it reads as empty and its value cannot be assigned.\<close>

definition is_MergedCell :: "worksheet \<Rightarrow> nat \<times> nat \<Rightarrow> bool" where
  "is_MergedCell ws p =
     (\<exists>R \<in> set (merged_ranges ws).
        in_range R (fst p) (snd p) \<and> p \<noteq> (min_row R, min_col R))"

text \<open>\<^verbatim>\<open>worksheet.cell(row, column)\<close>: the cell object at a position, here the position
  itself; rows and columns start at 1.\<close>

definition ws_cell :: "nat \<Rightarrow> nat \<Rightarrow> py_error + (nat \<times> nat)" where
  "ws_cell r c = (if r < 1 \<or> c < 1 then Inl ValueError else Inr (r, c))"

definition read_value :: "worksheet \<Rightarrow> nat \<times> nat \<Rightarrow> pyval" where
  "read_value ws p = (if is_MergedCell ws p then PNone else vals ws p)"

definition set_value :: "worksheet \<Rightarrow> nat \<times> nat \<Rightarrow> pyval \<Rightarrow> py_error + worksheet" where
  "set_value ws p v =
     (if is_MergedCell ws p then Inl AttributeError
      else Inr (ws\<lparr>vals := (vals ws)(p := v)\<rparr>))"


section \<open>Data model (core/data_models.py)\<close>

text \<open>A task's \<open>inputs\<close> is a Python dict from cell coordinate to value: an association
  list in insertion order.\<close>

record task =
  name :: string
  description :: string
  inputs :: "(string \<times> string) list"

record category =
  cat_name :: string
  tasks :: "task list"

record sheet_data =
  sheet_name :: string
  categories :: "category list"

text \<open>\<^verbatim>\<open>d[k] = v\<close> on a dict: an existing key keeps its place, a new key goes last.\<close>

fun dict_set :: "('k \<times> 'v) list \<Rightarrow> 'k \<Rightarrow> 'v \<Rightarrow> ('k \<times> 'v) list" where
  "dict_set [] k v = [(k, v)]"
| "dict_set (p # ps) k v = (if fst p = k then (k, v) # ps else p # dict_set ps k v)"


section \<open>Extraction (core/excel_processor.py)\<close>

text \<open>A cell object as the row iterator yields it: it knows its content, its style and
  its position.\<close>

record cell =
  cvalue :: pyval
  bold :: bool
  fill_color :: string
  row :: nat
  column :: nat

definition cell_at :: "worksheet \<Rightarrow> nat \<Rightarrow> nat \<Rightarrow> cell" where
  "cell_at ws r c =
     \<lparr>cvalue = read_value ws (r, c), bold = bolds ws (r, c), fill_color = fills ws (r, c),
      row = r, column = c\<rparr>"

text \<open>\<^verbatim>\<open>worksheet.iter_rows(max_row=n)\<close>: the rows 1 .. n, each over the columns
  1 .. \<open>max_column\<close>.\<close>

definition iter_rows_to :: "worksheet \<Rightarrow> nat \<Rightarrow> cell list list" where
  "iter_rows_to ws n =
     map (\<lambda>r. map (\<lambda>c. cell_at ws r c) [1 ..< ws_max_column ws + 1]) [1 ..< n + 1]"

definition iter_rows :: "worksheet \<Rightarrow> cell list list" where
  "iter_rows ws = iter_rows_to ws (ws_max_row ws)"

text \<open>\<^verbatim>\<open>_find_input_columns\<close>: the columns after the first that hold a recognised
  header in the rows it is given (the first ten of the sheet), sorted, without repeats.\<close>

definition is_input_header :: "pyval \<Rightarrow> bool" where
  "is_input_header v = (case v of PStr s \<Rightarrow> s \<in> set INPUT_HEADERS | _ \<Rightarrow> False)"

definition find_input_columns :: "cell list list \<Rightarrow> nat list" where
  "find_input_columns rows =
     sort (remdups (map column
       (filter (\<lambda>c. is_input_header (cvalue c) \<and> column c > 1) (concat rows))))"

text \<open>\<^verbatim>\<open>row[i]\<close> on a tuple, for an index that is not negative.\<close>

definition row_get :: "'a list \<Rightarrow> nat \<Rightarrow> py_error + 'a" where
  "row_get xs i = (if i < length xs then Inr (xs ! i) else Inl IndexError)"

text \<open>\<^verbatim>\<open>_get_input_values\<close>: one entry per input column, keyed by the coordinate of
  the cell found there.  Every input column is at least 2, so \<open>col - 1\<close> is a proper index.\<close>

definition input_value :: "pyval \<Rightarrow> string" where
  "input_value v = (if truthy v then py_str v else DEFAULT_VALUE)"

definition get_input_step ::
  "cell list \<Rightarrow> nat \<Rightarrow> (string \<times> string) list \<Rightarrow> py_error + (string \<times> string) list" where
  "get_input_step rw col inputs_acc =
     (case row_get rw (col - 1) of
        Inl e \<Rightarrow> Inl e
      | Inr cl \<Rightarrow>
          (case get_column_letter (column cl) of
             Inl e \<Rightarrow> Inl e
           | Inr letter \<Rightarrow>
               Inr (dict_set inputs_acc (letter @ str_nat (row cl)) (input_value (cvalue cl)))))"

definition get_input_values :: "nat list \<Rightarrow> cell list \<Rightarrow> py_error + (string \<times> string) list" where
  "get_input_values input_cols rw = foldM (get_input_step rw) input_cols []"

text \<open>The state of \<^verbatim>\<open>_process_worksheet\<close>'s loop: the categories already appended to the
  sheet and the category being filled.\<close>

record parse_state =
  done_categories :: "category list"
  current_category :: "category option"

definition append_description :: "task \<Rightarrow> string \<Rightarrow> task" where
  "append_description t cell_value =
     (if description t \<noteq> [] then t\<lparr>description := description t @ '' '' @ cell_value\<rparr>
      else t\<lparr>description := cell_value\<rparr>)"

definition process_row :: "nat list \<Rightarrow> cell list \<Rightarrow> parse_state \<Rightarrow> py_error + parse_state" where
  "process_row input_cols rw st =
     (case rw of
        [] \<Rightarrow> Inl IndexError
      | first_cell # _ \<Rightarrow>
          if \<not> truthy (cvalue first_cell) then Inr st
          else
            let cell_value = py_strip (py_str (cvalue first_cell)) in
            if fill_color first_cell = CATEGORY_COLOR \<and> bold first_cell then
              Inr \<lparr>done_categories =
                     (case current_category st of
                        None \<Rightarrow> done_categories st
                      | Some cur \<Rightarrow> done_categories st @ [cur]),
                   current_category = Some \<lparr>cat_name = cell_value, tasks = []\<rparr>\<rparr>
            else if bold first_cell then
              (case current_category st of
                 None \<Rightarrow> Inr st
               | Some cur \<Rightarrow>
                   (case get_input_values input_cols rw of
                      Inl e \<Rightarrow> Inl e
                    | Inr inp \<Rightarrow>
                        Inr (st\<lparr>current_category :=
                               Some (cur\<lparr>tasks := tasks cur @
                                 [\<lparr>name = cell_value, description = [], inputs = inp\<rparr>]\<rparr>)\<rparr>)))
            else
              (case current_category st of
                 None \<Rightarrow> Inr st
               | Some cur \<Rightarrow>
                   if tasks cur \<noteq> [] then
                     Inr (st\<lparr>current_category :=
                            Some (cur\<lparr>tasks := butlast (tasks cur) @
                              [append_description (last (tasks cur)) cell_value]\<rparr>)\<rparr>)
                   else Inr st))"

definition finish_sheet :: "string \<Rightarrow> parse_state \<Rightarrow> sheet_data" where
  "finish_sheet nm st =
     \<lparr>sheet_name = nm,
      categories =
        (case current_category st of
           None \<Rightarrow> done_categories st
         | Some cur \<Rightarrow> done_categories st @ [cur])\<rparr>"

text \<open>\<^verbatim>\<open>_process_worksheet\<close> for the worksheet at 1-based position \<open>sheet_number\<close>.\<close>

definition process_worksheet :: "nat \<Rightarrow> worksheet \<Rightarrow> py_error + sheet_data" where
  "process_worksheet sheet_number ws =
     (let input_cols = find_input_columns (iter_rows_to ws 10) in
      case foldM (process_row input_cols) (iter_rows ws)
             \<lparr>done_categories = [], current_category = None\<rparr> of
        Inl e \<Rightarrow> Inl e
      | Inr st \<Rightarrow> Inr (finish_sheet (''Sheet '' @ str_nat sheet_number) st))"


section \<open>Write-back (ui/task\_completion.py)\<close>

text \<open>The selections of the user interface that the write-back reads.\<close>

record ui_state =
  initials :: string
  selected_day :: string
  selected_month :: string
  selected_year :: string
  task_status :: string

definition date_string :: "ui_state \<Rightarrow> string" where
  "date_string ui =
     py_upper (initials ui) @ '' '' @ selected_day ui @ '' '' @
     py_upper (selected_month ui) @ '' '' @ drop 2 (selected_year ui)"

definition is_comment_task :: "task \<Rightarrow> bool" where
  "is_comment_task t = (py_strip (py_lower (name t)) = ''comments:'')"

text \<open>\<^verbatim>\<open>_get_unmerged_cell\<close>: any exception inside is caught and gives \<open>None\<close>.\<close>

definition opt_cell :: "nat \<Rightarrow> nat \<Rightarrow> (nat \<times> nat) option" where
  "opt_cell r c = (case ws_cell r c of Inl e \<Rightarrow> None | Inr p \<Rightarrow> Some p)"

definition get_unmerged_cell :: "worksheet \<Rightarrow> string \<Rightarrow> (nat \<times> nat) option" where
  "get_unmerged_cell ws cell_ref =
     (let column_letter = filter isalpha cell_ref;
          digits = filter isdigit cell_ref
      in if digits = [] then None
         else
           let row_number = int_of_digits digits in
           (case column_index_from_string column_letter of
              Inl e \<Rightarrow> None
            | Inr col \<Rightarrow>
                (case find (\<lambda>R. in_range R row_number col) (merged_ranges ws) of
                   Some R \<Rightarrow> opt_cell (min_row R) (min_col R)
                 | None \<Rightarrow> opt_cell row_number col)))"

text \<open>\<^verbatim>\<open>_find_next_empty_columns\<close>.  \<open>find_loop\<close> is the \<^verbatim>\<open>for\<close> loop with its
  accumulator; it stops with the accumulator as soon as that holds two coordinates.\<close>

fun find_loop :: "worksheet \<Rightarrow> string list \<Rightarrow> string list \<Rightarrow> string list" where
  "find_loop ws empty_columns [] = empty_columns"
| "find_loop ws empty_columns (cell_ref # rest) =
     (case get_unmerged_cell ws cell_ref of
        None \<Rightarrow> find_loop ws empty_columns rest
      | Some p \<Rightarrow>
          if \<not> truthy (read_value ws p) then
            (let e = empty_columns @ [cell_ref]
             in if length e = 2 then e else find_loop ws e rest)
          else find_loop ws empty_columns rest)"

definition find_next_empty_columns :: "worksheet \<Rightarrow> task \<Rightarrow> string list" where
  "find_next_empty_columns ws t =
     (let input_cells = sort (map fst (inputs t));
          empty_columns = find_loop ws [] input_cells
      in if empty_columns \<noteq> [] then empty_columns else take 2 input_cells)"

text \<open>A coordinate counts as empty when the resolver finds its cell and the value there
  is false in Python.\<close>

definition resolves_empty :: "worksheet \<Rightarrow> string \<Rightarrow> bool" where
  "resolves_empty ws cell_ref =
     (case get_unmerged_cell ws cell_ref of
        None \<Rightarrow> False
      | Some p \<Rightarrow> \<not> truthy (read_value ws p))"

text \<open>One guarded assignment \<^verbatim>\<open>cell = ...; if cell: cell.value = v\<close>.\<close>

definition write_target :: "worksheet \<Rightarrow> string \<Rightarrow> pyval \<Rightarrow> py_error + worksheet" where
  "write_target ws cell_ref v =
     (case get_unmerged_cell ws cell_ref of
        None \<Rightarrow> Inr ws
      | Some p \<Rightarrow> set_value ws p v)"

definition write_pair :: "ui_state \<Rightarrow> worksheet \<Rightarrow> string \<Rightarrow> string \<Rightarrow> py_error + worksheet" where
  "write_pair ui ws c1 c2 =
     (case write_target ws c1 (PStr (date_string ui)) of
        Inl e \<Rightarrow> Inl e
      | Inr ws1 \<Rightarrow> write_target ws1 c2 (PStr (py_upper (task_status ui))))"

text \<open>The body of the task loop of \<^verbatim>\<open>_write_new_month_data\<close> and of
  \<^verbatim>\<open>_write_same_month_data\<close>.\<close>

definition write_new_task :: "ui_state \<Rightarrow> task \<Rightarrow> worksheet \<Rightarrow> py_error + worksheet" where
  "write_new_task ui t ws =
     (if is_comment_task t then Inr ws
      else
        let input_cells = sort (map fst (inputs t)) in
        if length input_cells \<ge> 2 then write_pair ui ws (input_cells ! 0) (input_cells ! 1)
        else Inr ws)"

definition write_same_task :: "ui_state \<Rightarrow> task \<Rightarrow> worksheet \<Rightarrow> py_error + worksheet" where
  "write_same_task ui t ws =
     (if is_comment_task t then Inr ws
      else
        let empty_cells = find_next_empty_columns ws t in
        if length empty_cells \<ge> 2 then write_pair ui ws (empty_cells ! 0) (empty_cells ! 1)
        else Inr ws)"

text \<open>The two nested loops run over the tasks of all categories in order.\<close>

definition all_tasks :: "sheet_data \<Rightarrow> task list" where
  "all_tasks sd = concat (map tasks (categories sd))"

definition write_new_month_data :: "ui_state \<Rightarrow> worksheet \<Rightarrow> sheet_data \<Rightarrow> py_error + worksheet" where
  "write_new_month_data ui ws sd = foldM (write_new_task ui) (all_tasks sd) ws"

definition write_same_month_data :: "ui_state \<Rightarrow> worksheet \<Rightarrow> sheet_data \<Rightarrow> py_error + worksheet" where
  "write_same_month_data ui ws sd = foldM (write_same_task ui) (all_tasks sd) ws"

text \<open>\<^verbatim>\<open>_clear_previous_month_data\<close>.  The column set is built from the first character
  of every input coordinate of every task of the first category of the first sheet.\<close>

definition first_char :: "string \<Rightarrow> char list \<Rightarrow> py_error + char list" where
  "first_char cell_ref acc =
     (case cell_ref of
        [] \<Rightarrow> Inl IndexError
      | c # _ \<Rightarrow> Inr (if c \<in> set acc then acc else acc @ [c]))"

definition gather_input_columns :: "sheet_data list \<Rightarrow> py_error + char list" where
  "gather_input_columns data =
     (case data of
        [] \<Rightarrow> Inl IndexError
      | s # _ \<Rightarrow>
          (case categories s of
             [] \<Rightarrow> Inl IndexError
           | cat # _ \<Rightarrow> foldM first_char (concat (map (\<lambda>t. map fst (inputs t)) (tasks cat))) []))"

definition clear_cell :: "nat \<Rightarrow> nat \<Rightarrow> worksheet \<Rightarrow> worksheet" where
  "clear_cell col_idx r ws =
     (if r < 1 \<or> col_idx < 1 then ws
      else if \<not> is_MergedCell ws (r, col_idx) then ws\<lparr>vals := (vals ws)((r, col_idx) := PNone)\<rparr>
      else ws)"

definition clear_column :: "char \<Rightarrow> worksheet \<Rightarrow> py_error + worksheet" where
  "clear_column col ws =
     (if col = CHR ''A'' then Inr ws
      else
        (case column_index_from_string [col] of
           Inl e \<Rightarrow> Inl e
         | Inr col_idx \<Rightarrow> Inr (fold (clear_cell col_idx) [9 ..< ws_max_row ws + 1] ws)))"

definition clear_worksheet :: "sheet_data list \<Rightarrow> worksheet \<Rightarrow> py_error + worksheet" where
  "clear_worksheet data ws =
     (case gather_input_columns data of
        Inl e \<Rightarrow> Inl e
      | Inr input_columns \<Rightarrow> foldM clear_column input_columns ws)"

fun clear_previous_month_data ::
  "sheet_data list \<Rightarrow> worksheet list \<Rightarrow> py_error + worksheet list" where
  "clear_previous_month_data data [] = Inr []"
| "clear_previous_month_data data (ws # wss) =
     (case clear_worksheet data ws of
        Inl e \<Rightarrow> Inl e
      | Inr ws' \<Rightarrow>
          (case clear_previous_month_data data wss of
             Inl e \<Rightarrow> Inl e
           | Inr wss' \<Rightarrow> Inr (ws' # wss')))"

text \<open>\<^verbatim>\<open>_save_to_excel\<close>.  \<open>xlsx_exists\<close> says whether the source workbook is on disk,
  \<open>xlsx_name\<close> is its file name and \<open>wb\<close> its worksheets as loaded.  A successful run
  returns the name of the file written and its worksheets; an exception anywhere is
  caught at the end of the function, nothing is written and the source file stays as it was.\<close>

definition new_filename :: "ui_state \<Rightarrow> string \<Rightarrow> string" where
  "new_filename ui xlsx_name =
     (let filename_parts = py_split (path_stem xlsx_name);
          base_name = py_join '' '' (take (length filename_parts - 3) filename_parts);
          new_date = selected_day ui @ '' '' @ py_upper (selected_month ui) @ '' '' @
                     drop 2 (selected_year ui)
      in base_name @ '' '' @ new_date @ ''.xlsx'')"

definition old_month_of :: "string \<Rightarrow> py_error + string" where
  "old_month_of xlsx_name =
     (let filename_parts = py_split (path_stem xlsx_name)
      in if length filename_parts < 2 then Inl IndexError
         else Inr (filename_parts ! (length filename_parts - 2)))"

definition write_sheet ::
  "ui_state \<Rightarrow> string \<Rightarrow> sheet_data \<Rightarrow> worksheet list \<Rightarrow> py_error + worksheet list" where
  "write_sheet ui old_month sd wb =
     (case py_split (sheet_name sd) of
        [] \<Rightarrow> Inl IndexError
      | tok # toks \<Rightarrow>
          (case py_int (last (tok # toks)) of
             Inl e \<Rightarrow> Inl e
           | Inr n \<Rightarrow>
               let sheet_index = n - 1 in
               if 0 \<le> sheet_index \<and> sheet_index < int (length wb) then
                 (case (if old_month = py_upper (selected_month ui)
                        then write_same_month_data ui (wb ! nat sheet_index) sd
                        else write_new_month_data ui (wb ! nat sheet_index) sd) of
                    Inl e \<Rightarrow> Inl e
                  | Inr ws' \<Rightarrow> Inr (wb[nat sheet_index := ws']))
               else Inr wb))"

definition save_to_excel ::
  "bool \<Rightarrow> string \<Rightarrow> ui_state \<Rightarrow> sheet_data list \<Rightarrow> worksheet list \<Rightarrow>
     py_error + (string \<times> worksheet list)" where
  "save_to_excel xlsx_exists xlsx_name ui data wb =
     (if \<not> xlsx_exists then Inl FileNotFoundError
      else
        (case old_month_of xlsx_name of
           Inl e \<Rightarrow> Inl e
         | Inr old_month \<Rightarrow>
             (case (if old_month \<noteq> py_upper (selected_month ui)
                    then clear_previous_month_data data wb else Inr wb) of
                Inl e \<Rightarrow> Inl e
              | Inr wb1 \<Rightarrow>
                  (case foldM (write_sheet ui old_month) data wb1 of
                     Inl e \<Rightarrow> Inl e
                   | Inr wb2 \<Rightarrow> Inr (new_filename ui xlsx_name, wb2)))))"

text \<open>
  What the library guarantees of a loaded worksheet: every merged region has its top-left
  corner at row and column 1 or more, and no two regions share a cell.
\<close>

definition valid_range :: "merge_range \<Rightarrow> bool" where
  "valid_range R =
     (1 \<le> min_row R \<and> min_row R \<le> max_row R \<and> 1 \<le> min_col R \<and> min_col R \<le> max_col R)"

definition overlap :: "merge_range \<Rightarrow> merge_range \<Rightarrow> bool" where
  "overlap R S =
     (min_row R \<le> max_row S \<and> min_row S \<le> max_row R \<and>
      min_col R \<le> max_col S \<and> min_col S \<le> max_col R)"

fun wf_ranges :: "merge_range list \<Rightarrow> bool" where
  "wf_ranges [] = True"
| "wf_ranges (R # Rs) = (valid_range R \<and> (\<forall>S \<in> set Rs. \<not> overlap R S) \<and> wf_ranges Rs)"

definition wf_worksheet :: "worksheet \<Rightarrow> bool" where
  "wf_worksheet ws = wf_ranges (merged_ranges ws)"



text \<open>The input coordinates the reset pass looks at.\<close>

definition first_category_refs :: "sheet_data list \<Rightarrow> string list" where
  "first_category_refs data =
     concat (map (\<lambda>t. map fst (inputs t)) (tasks (hd (categories (hd data)))))"



section \<open>Row roles\<close>

datatype role = CategoryHeader | TaskHeader | DescriptionLine | Ignore

text \<open>
  The classification rule as the specification words it: the text of the lead cell is
  what the cell shows, and an empty text is ignored.
\<close>

definition lead_text :: "pyval \<Rightarrow> string" where
  "lead_text v = (case v of PNone \<Rightarrow> [] | _ \<Rightarrow> py_str v)"

definition has_tasks :: "category option \<Rightarrow> bool" where
  "has_tasks cur = (case cur of None \<Rightarrow> False | Some c \<Rightarrow> tasks c \<noteq> [])"

definition spec_classify :: "cell \<Rightarrow> category option \<Rightarrow> role" where
  "spec_classify lead cur =
     (if lead_text (cvalue lead) = [] then Ignore
      else if fill_color lead = CATEGORY_COLOR \<and> bold lead then CategoryHeader
      else if bold lead then TaskHeader
      else if has_tasks cur then DescriptionLine
      else Ignore)"

text \<open>The same rule with the emptiness test of the code: a lead value that Python takes
  as false.\<close>

definition classify :: "cell \<Rightarrow> category option \<Rightarrow> role" where
  "classify lead cur =
     (if \<not> truthy (cvalue lead) then Ignore
      else if fill_color lead = CATEGORY_COLOR \<and> bold lead then CategoryHeader
      else if bold lead then TaskHeader
      else if has_tasks cur then DescriptionLine
      else Ignore)"

text \<open>What each role does to the state of the row loop.\<close>

definition close_category :: "parse_state \<Rightarrow> category list" where
  "close_category st =
     (case current_category st of None \<Rightarrow> done_categories st
      | Some cur \<Rightarrow> done_categories st @ [cur])"

fun apply_role :: "role \<Rightarrow> nat list \<Rightarrow> cell list \<Rightarrow> parse_state \<Rightarrow> py_error + parse_state" where
  "apply_role Ignore cols rw st = Inr st"
| "apply_role CategoryHeader cols rw st =
     Inr \<lparr>done_categories = close_category st,
          current_category = Some \<lparr>cat_name = py_strip (py_str (cvalue (hd rw))), tasks = []\<rparr>\<rparr>"
| "apply_role TaskHeader cols rw st =
     (case current_category st of
        None \<Rightarrow> Inr st
      | Some cur \<Rightarrow>
          (case get_input_values cols rw of
             Inl e \<Rightarrow> Inl e
           | Inr inp \<Rightarrow>
               Inr (st\<lparr>current_category := Some (cur\<lparr>tasks := tasks cur @
                 [\<lparr>name = py_strip (py_str (cvalue (hd rw))), description = [], inputs = inp\<rparr>]\<rparr>)\<rparr>)))"
| "apply_role DescriptionLine cols rw st =
     (case current_category st of
        None \<Rightarrow> Inr st
      | Some cur \<Rightarrow>
          Inr (st\<lparr>current_category := Some (cur\<lparr>tasks := butlast (tasks cur) @
            [append_description (last (tasks cur)) (py_strip (py_str (cvalue (hd rw))))]\<rparr>)\<rparr>))"


section \<open>Rewrite modes\<close>







section \<open>Example inputs\<close>

definition ui_ex :: ui_state where
  "ui_ex = \<lparr>initials = ''ab'', selected_day = ''15'', selected_month = ''Jan'',
            selected_year = ''2024'', task_status = ''ok''\<rparr>"

definition ws_blank :: worksheet where
  "ws_blank = \<lparr>vals = (\<lambda>p. PNone), bolds = (\<lambda>p. False), fills = (\<lambda>p. ''00000000''),
               merged_ranges = [], ws_max_row = 12, ws_max_column = 3\<rparr>"

definition task_ex :: task where
  "task_ex = \<lparr>name = ''Check extinguisher'', description = ''See gauge'',
              inputs = [(''B9'', ''no input''), (''C9'', ''no input'')]\<rparr>"

definition sheet_ex :: sheet_data where
  "sheet_ex = \<lparr>sheet_name = ''Sheet 1'',
               categories = [\<lparr>cat_name = ''Fire Safety'', tasks = [task_ex]\<rparr>]\<rparr>"

definition data_ex :: "sheet_data list" where
  "data_ex = [sheet_ex]"

text \<open>A sheet whose cells B9 and B10 are merged (a region of two rows and one column).\<close>

definition ws_merged :: worksheet where
  "ws_merged =
     ws_blank\<lparr>merged_ranges := [\<lparr>min_row = 9, max_row = 10, min_col = 2, max_col = 2\<rparr>]\<rparr>"

text \<open>A bold lead cell in the category colour that holds the number 0, and an ordinary
  bold lead cell.\<close>

definition lead_zero :: cell where
  "lead_zero = \<lparr>cvalue = PInt 0, bold = True, fill_color = CATEGORY_COLOR, row = 9, column = 1\<rparr>"

definition st_empty :: parse_state where
  "st_empty = \<lparr>done_categories = [], current_category = None\<rparr>"

definition lead_bold :: cell where
  "lead_bold = \<lparr>cvalue = PStr ''Check extinguisher'', bold = True, fill_color = ''00000000'', row = 9, column = 1\<rparr>"

text \<open>A sheet whose cell B9 is filled, and a task with a single input coordinate.\<close>

definition ws_half :: worksheet where
  "ws_half = ws_blank\<lparr>vals := (vals ws_blank)((9, 2) := PStr ''CD 02 JAN 24'')\<rparr>"

definition task_one :: task where
  "task_one = \<lparr>name = ''Check hose'', description = [], inputs = [(''B9'', ''no input'')]\<rparr>"




text \<open>A sheet whose input headers stand in the columns AB and BA, with one category and
  one task in row 9, and the data that extraction returns for it.\<close>

definition ws_wide :: worksheet where
  "ws_wide =
     \<lparr>vals = (\<lambda>p. PNone)((7, 28) := PStr ''Date Inspected by who?'', (7, 53) := PStr ''OK?'',
                (8, 1) := PStr ''Fire Safety'',
                (9, 1) := PStr ''Check extinguisher'', (9, 2) := PStr ''Hall'',
                (9, 28) := PStr ''CD 02 JAN 24'', (9, 53) := PStr ''OK''),
      bolds = (\<lambda>p. False)((8, 1) := True, (9, 1) := True),
      fills = (\<lambda>p. ''00000000'')((8, 1) := ''FFFFFF00''),
      merged_ranges = [], ws_max_row = 9, ws_max_column = 53\<rparr>"

definition sheet_wide :: sheet_data where
  "sheet_wide =
     \<lparr>sheet_name = ''Sheet 1'',
      categories =
        [\<lparr>cat_name = ''Fire Safety'',
          tasks = [\<lparr>name = ''Check extinguisher'', description = [],
                    inputs = [(''AB9'', ''CD 02 JAN 24''), (''BA9'', ''OK'')]\<rparr>]\<rparr>]\<rparr>"

text \<open>A sheet with the input headers in row 8 and a task in row 9 whose first input cell
  holds the number 0; and the state of the extraction loop inside a category.\<close>

definition ws_sheet :: worksheet where
  "ws_sheet =
     \<lparr>vals = (\<lambda>p. PNone)((8, 2) := PStr ''Date Inspected by who?'', (8, 3) := PStr ''OK?'',
                (9, 1) := PStr ''Check extinguisher'', (9, 2) := PInt 0,
                (9, 3) := PStr ''OK''),
      bolds = (\<lambda>p. False)((9, 1) := True),
      fills = (\<lambda>p. ''00000000''),
      merged_ranges = [], ws_max_row = 10, ws_max_column = 3\<rparr>"

definition st_open :: parse_state where
  "st_open = \<lparr>done_categories = [],
              current_category = Some \<lparr>cat_name = ''Fire Safety'', tasks = []\<rparr>\<rparr>"

text \<open>A sheet whose first input cell of the task row holds the text ``no input''.\<close>

definition ws_typed :: worksheet where
  "ws_typed =
     \<lparr>vals = (\<lambda>p. PNone)((7, 2) := PStr ''Date Inspected by who?'', (7, 3) := PStr ''OK?'',
                (8, 1) := PStr ''Fire Safety'',
                (9, 1) := PStr ''Check extinguisher'', (9, 2) := PStr ''no input'',
                (9, 3) := PStr ''OK''),
      bolds = (\<lambda>p. False)((8, 1) := True, (9, 1) := True),
      fills = (\<lambda>p. ''00000000'')((8, 1) := ''FFFFFF00''),
      merged_ranges = [], ws_max_row = 9, ws_max_column = 3\<rparr>"

section \<open>Output file name and file name errors\<close>


lemma save_to_excel_name:
  "save_to_excel ex nm ui data wb = Inr (fn, wb') \<Longrightarrow> fn = new_filename ui nm"
  by (auto simp: save_to_excel_def split: if_splits sum.splits)

text \<open>
  Claim C6.  When the stem of the source file name splits into some base words followed by
  three more tokens, the derived file name is the base words joined by single spaces, then
  the selected day, the upper-cased period label and the year without its first two
  characters, then \<open>.xlsx\<close>; and a write-back that succeeds saves under exactly that name.
\<close>

theorem output_filename:
  assumes "py_split (path_stem xlsx_name) = base_words @ [d, m, y]"
  shows "new_filename ui xlsx_name =
           py_join '' '' base_words @ '' '' @ selected_day ui @ '' '' @
           py_upper (selected_month ui) @ '' '' @ drop 2 (selected_year ui) @ ''.xlsx''
         \<and> (\<forall>fn wb'. save_to_excel ex xlsx_name ui data wb = Inr (fn, wb') \<longrightarrow>
               fn = new_filename ui xlsx_name)"
  using assms by (auto simp: new_filename_def dest: save_to_excel_name)

theorem output_filename_witness:
  "new_filename ui_ex ''Fire Panel 12 JAN 24.xlsx'' = ''Fire Panel 15 JAN 24.xlsx''"
proof -
  have h: "py_split (path_stem ''Fire Panel 12 JAN 24.xlsx'') =
             [''Fire'', ''Panel''] @ [''12'', ''JAN'', ''24'']"
    by code_simp
  have u: "py_upper ''Jan'' = ''JAN''" by code_simp
  from output_filename [OF h, of ui_ex] show ?thesis
    by (simp add: ui_ex_def u)
qed

text \<open>
  Claim C7 fails for a stem of exactly two tokens: \<open>JAN 24.xlsx\<close> is parsed with an empty
  base name and \<open>JAN\<close> as the old period, and the write-back runs to the save step.
\<close>

theorem short_stem_counterexample:
  "length (py_split (path_stem ''JAN 24.xlsx'')) = 2 \<and>
   (case save_to_excel True ''JAN 24.xlsx'' ui_ex data_ex [ws_blank] of
      Inl e \<Rightarrow> False
    | Inr (fn, wb') \<Rightarrow>
        fn = '' 15 JAN 24.xlsx'' \<and> vals (hd wb') (9, 2) = PStr ''AB 15 JAN 24'')"
  by code_simp

text \<open>
  Claim C7, amended.  When the stem has fewer than two whitespace-separated tokens the
  write-back raises before anything is written: \<open>IndexError\<close> from reading the period
  token (or \<open>FileNotFoundError\<close> when the source workbook is missing).
\<close>

theorem short_stem_fails:
  assumes "length (py_split (path_stem xlsx_name)) < 2"
  shows "save_to_excel ex xlsx_name ui data wb =
           Inl (if ex then IndexError else FileNotFoundError)"
  using assms by (simp add: save_to_excel_def old_month_of_def)

theorem short_stem_fails_witness:
  "length (py_split (path_stem ''Panel.xlsx'')) < 2 \<and>
   save_to_excel True ''Panel.xlsx'' ui_ex data_ex [ws_blank] = Inl IndexError"
proof -
  have h: "length (py_split (path_stem ''Panel.xlsx'')) < 2" by code_simp
  from short_stem_fails [OF h, of True ui_ex data_ex "[ws_blank]"] h show ?thesis by simp
qed

section \<open>The merged-cell resolver\<close>

lemma in_range_overlap: "in_range R r c \<Longrightarrow> in_range S r c \<Longrightarrow> overlap R S"
  by (auto simp: in_range_def overlap_def)

lemma overlap_sym: "overlap R S = overlap S R"
  by (auto simp: overlap_def)

lemma wf_ranges_valid: "wf_ranges Rs \<Longrightarrow> R \<in> set Rs \<Longrightarrow> valid_range R"
  by (induction Rs) auto

lemma wf_ranges_unique:
  "wf_ranges Rs \<Longrightarrow> R \<in> set Rs \<Longrightarrow> S \<in> set Rs \<Longrightarrow> overlap R S \<Longrightarrow> R = S"
  by (induction Rs) (auto simp: overlap_sym)

lemma find_in_range:
  assumes "wf_ranges Rs" "R \<in> set Rs" "in_range R r c"
  shows "find (\<lambda>S. in_range S r c) Rs = Some R"
proof -
  obtain S where S: "find (\<lambda>S. in_range S r c) Rs = Some S"
    using assms by (cases "find (\<lambda>S. in_range S r c) Rs") (auto simp: find_None_iff)
  then have "S \<in> set Rs" "in_range S r c"
    by (auto simp: find_Some_iff)
  with assms have "R = S"
    by (auto intro: wf_ranges_unique in_range_overlap)
  with S show ?thesis by simp
qed

lemma anchor_in_range: "valid_range R \<Longrightarrow> in_range R (min_row R) (min_col R)"
  by (simp add: valid_range_def in_range_def)

lemma anchor_not_MergedCell:
  assumes "wf_worksheet ws" "R \<in> set (merged_ranges ws)"
  shows "\<not> is_MergedCell ws (min_row R, min_col R)"
proof
  assume "is_MergedCell ws (min_row R, min_col R)"
  then obtain S where S: "S \<in> set (merged_ranges ws)" "in_range S (min_row R) (min_col R)"
      "(min_row R, min_col R) \<noteq> (min_row S, min_col S)"
    by (auto simp: is_MergedCell_def)
  have "valid_range R" using assms by (auto simp: wf_worksheet_def intro: wf_ranges_valid)
  then have "in_range R (min_row R) (min_col R)" by (rule anchor_in_range)
  with S assms have "R = S"
    by (auto simp: wf_worksheet_def intro: wf_ranges_unique in_range_overlap)
  with S show False by simp
qed

lemma free_not_MergedCell:
  "\<forall>R \<in> set (merged_ranges ws). \<not> in_range R r c \<Longrightarrow> \<not> is_MergedCell ws (r, c)"
  by (auto simp: is_MergedCell_def)

lemma foldl_col_pos:
  "list_all isupper u \<Longrightarrow> 1 \<le> length u \<Longrightarrow>
     1 \<le> foldl (\<lambda>acc c. 26 * acc + (of_char c - 64)) (0::nat) u"
proof (induction u rule: rev_induct)
  case Nil then show ?case by simp
next
  case (snoc x xs)
  then have "isupper x" by simp
  then have "1 \<le> (of_char x :: nat) - 64" unfolding isupper_def Let_def by arith
  then show ?case by simp
qed

lemma column_index_pos:
  assumes "column_index_from_string s = Inr c"
  shows "1 \<le> c"
proof -
  from assms have u: "list_all isupper (py_upper s)" "1 \<le> length (py_upper s)"
    and c: "c = foldl (\<lambda>acc c. 26 * acc + (of_char c - 64)) 0 (py_upper s)"
    by (auto simp: column_index_from_string_def Let_def split: if_splits)
  from u have "1 \<le> foldl (\<lambda>acc c. 26 * acc + (of_char c - 64)) (0::nat) (py_upper s)"
    by (rule foldl_col_pos)
  with c show ?thesis by simp
qed

lemma opt_cell_Some: "1 \<le> r \<Longrightarrow> 1 \<le> c \<Longrightarrow> opt_cell r c = Some (r, c)"
  by (simp add: opt_cell_def ws_cell_def)

lemma resolve_in_region:
  assumes col: "column_index_from_string (filter isalpha cell_ref) = Inr col"
    and dig: "filter isdigit cell_ref \<noteq> []"
    and wf: "wf_worksheet ws"
    and R: "R \<in> set (merged_ranges ws)" "in_range R (int_of_digits (filter isdigit cell_ref)) col"
  shows "get_unmerged_cell ws cell_ref = Some (min_row R, min_col R)"
proof -
  have f: "find (\<lambda>S. in_range S (int_of_digits (filter isdigit cell_ref)) col) (merged_ranges ws) = Some R"
    using wf R by (auto simp: wf_worksheet_def intro: find_in_range)
  have "valid_range R" using wf R by (auto simp: wf_worksheet_def intro: wf_ranges_valid)
  then have "opt_cell (min_row R) (min_col R) = Some (min_row R, min_col R)"
    by (simp add: valid_range_def opt_cell_Some)
  with col dig f show ?thesis
    by (simp add: get_unmerged_cell_def Let_def)
qed

lemma resolve_outside:
  assumes col: "column_index_from_string (filter isalpha cell_ref) = Inr col"
    and dig: "filter isdigit cell_ref \<noteq> []"
    and rw: "1 \<le> int_of_digits (filter isdigit cell_ref)"
    and no: "\<forall>R \<in> set (merged_ranges ws). \<not> in_range R (int_of_digits (filter isdigit cell_ref)) col"
  shows "get_unmerged_cell ws cell_ref = Some (int_of_digits (filter isdigit cell_ref), col)"
proof -
  have f: "find (\<lambda>S. in_range S (int_of_digits (filter isdigit cell_ref)) col) (merged_ranges ws) = None"
    using no by (simp add: find_None_iff)
  have "1 \<le> col" using col by (rule column_index_pos)
  with rw col dig f show ?thesis
    by (simp add: get_unmerged_cell_def Let_def opt_cell_Some)
qed

text \<open>Whatever the resolver returns is a cell that can be written.\<close>

lemma resolved_cases:
  assumes "get_unmerged_cell ws cell_ref = Some p"
  shows "(\<exists>R \<in> set (merged_ranges ws). p = (min_row R, min_col R)) \<or>
         (\<forall>R \<in> set (merged_ranges ws). \<not> in_range R (fst p) (snd p))"
  using assms
  by (auto simp: get_unmerged_cell_def Let_def opt_cell_def ws_cell_def find_None_iff find_Some_iff
           split: if_splits sum.splits option.splits)

lemma resolved_writable:
  assumes "wf_worksheet ws" "get_unmerged_cell ws cell_ref = Some p"
  shows "\<not> is_MergedCell ws p"
  using resolved_cases [OF assms(2)] assms(1)
  by (auto dest: anchor_not_MergedCell free_not_MergedCell)

text \<open>
  Claim C9.  For a coordinate that names a column \<open>col\<close> and a row \<open>rw\<close> of a loaded
  worksheet, the resolver returns the top-left cell of the merged region that contains
  (\<open>rw\<close>, \<open>col\<close>) when there is one, and the cell (\<open>rw\<close>, \<open>col\<close>) itself otherwise;
  and a guarded write to the coordinate stores its value in exactly the resolved cell.
\<close>

theorem resolver_anchor:
  assumes "column_index_from_string (filter isalpha cell_ref) = Inr col"
    and "filter isdigit cell_ref \<noteq> []"
    and "rw = int_of_digits (filter isdigit cell_ref)"
    and "1 \<le> rw"
    and "wf_worksheet ws"
  shows "(\<forall>R \<in> set (merged_ranges ws). in_range R rw col \<longrightarrow>
            get_unmerged_cell ws cell_ref = Some (min_row R, min_col R))
       \<and> ((\<forall>R \<in> set (merged_ranges ws). \<not> in_range R rw col) \<longrightarrow>
            get_unmerged_cell ws cell_ref = Some (rw, col))
       \<and> (\<forall>p v. get_unmerged_cell ws cell_ref = Some p \<longrightarrow>
            write_target ws cell_ref v = Inr (ws\<lparr>vals := (vals ws)(p := v)\<rparr>))"
proof (intro conjI ballI impI allI)
  fix R assume "R \<in> set (merged_ranges ws)" "in_range R rw col"
  with assms show "get_unmerged_cell ws cell_ref = Some (min_row R, min_col R)"
    by (auto intro: resolve_in_region)
next
  assume "\<forall>R \<in> set (merged_ranges ws). \<not> in_range R rw col"
  with assms show "get_unmerged_cell ws cell_ref = Some (rw, col)"
    by (auto intro: resolve_outside)
next
  fix p v assume p: "get_unmerged_cell ws cell_ref = Some p"
  have "\<not> is_MergedCell ws p" using assms(5) p by (rule resolved_writable)
  with p show "write_target ws cell_ref v = Inr (ws\<lparr>vals := (vals ws)(p := v)\<rparr>)"
    by (simp add: write_target_def set_value_def)
qed

theorem resolver_anchor_witness:
  "get_unmerged_cell ws_merged ''B10'' = Some (9, 2) \<and>
   get_unmerged_cell ws_merged ''B9'' = Some (9, 2) \<and>
   get_unmerged_cell ws_merged ''C10'' = Some (10, 3) \<and>
   write_target ws_merged ''B10'' (PStr ''OK'') =
     Inr (ws_merged\<lparr>vals := (vals ws_merged)((9, 2) := PStr ''OK'')\<rparr>)"
proof -
  have c: "column_index_from_string (filter isalpha ''B10'') = Inr 2" by code_simp
  have d: "filter isdigit ''B10'' \<noteq> []" by code_simp
  have r: "10 = int_of_digits (filter isdigit ''B10'')" by code_simp
  have w: "wf_worksheet ws_merged" by code_simp
  have m: "\<lparr>min_row = 9, max_row = 10, min_col = 2, max_col = 2\<rparr> \<in> set (merged_ranges ws_merged)"
    by (simp add: ws_merged_def)
  have i: "in_range \<lparr>min_row = 9, max_row = 10, min_col = 2, max_col = 2\<rparr> 10 2"
    by (simp add: in_range_def)
  have b10: "get_unmerged_cell ws_merged ''B10'' = Some (9, 2)"
    using resolver_anchor [OF c d r _ w] m i by fastforce
  have wr: "write_target ws_merged ''B10'' (PStr ''OK'') =
     Inr (ws_merged\<lparr>vals := (vals ws_merged)((9, 2) := PStr ''OK'')\<rparr>)"
    using resolver_anchor [OF c d r _ w] b10 by simp
  have b9: "get_unmerged_cell ws_merged ''B9'' = Some (9, 2)" by code_simp
  have c10: "get_unmerged_cell ws_merged ''C10'' = Some (10, 3)" by code_simp
  from b10 b9 c10 wr show ?thesis by simp
qed

section \<open>Classification of rows\<close>

text \<open>
  Claim C8 fails for a lead cell whose content is not empty but false in Python: a bold
  cell in the category colour holding the number 0 shows the text \<open>0\<close>, so the stated rule
  makes it a category header, and the code skips the row.
\<close>

theorem classification_counterexample:
  "spec_classify lead_zero None = CategoryHeader \<and>
   process_row [] [lead_zero] st_empty = Inr st_empty \<and>
   apply_role CategoryHeader [] [lead_zero] st_empty \<noteq> Inr st_empty"
  by (simp add: spec_classify_def lead_text_def lead_zero_def process_row_def st_empty_def
        close_category_def str_int_def)

text \<open>
  Claim C8, amended.  Every row is handled by this priority: a lead value that is false in
  Python (nothing, the empty string, the number 0, False) is ignored; category colour and
  bold is a category header, which closes the open category and opens a new one; any other
  bold cell is a task header; a cell that is not bold while the open category has a task is
  a description line; anything else is ignored.  For a lead cell that holds text or nothing
  this is the rule as the specification states it.  A row that is not a category header and
  comes before any category header leaves the state as it was.
\<close>

theorem row_classification:
  "process_row cols (lead # rest) st = apply_role (classify lead (current_category st)) cols (lead # rest) st
   \<and> ((cvalue lead = PNone \<or> (\<exists>s. cvalue lead = PStr s)) \<longrightarrow>
        classify lead (current_category st) = spec_classify lead (current_category st))
   \<and> (current_category st = None \<and> \<not> (fill_color lead = CATEGORY_COLOR \<and> bold lead) \<longrightarrow>
        process_row cols (lead # rest) st = Inr st)"
  by (auto simp: process_row_def classify_def spec_classify_def lead_text_def has_tasks_def
        close_category_def Let_def split: option.splits sum.splits pyval.splits)

theorem row_classification_witness:
  "process_row [] [lead_bold] st_empty = Inr st_empty \<and>
   classify lead_bold None = TaskHeader \<and> spec_classify lead_bold None = TaskHeader"
proof -
  have c: "classify lead_bold None = TaskHeader" 
    by (simp add: classify_def lead_bold_def CATEGORY_COLOR_def)
  from row_classification [of "[]" lead_bold "[]" st_empty] c show ?thesis
    by (simp add: st_empty_def lead_bold_def)
qed


section \<open>The same-period column allocator\<close>

lemma find_loop_filter:
  "length acc < 2 \<Longrightarrow>
     find_loop ws acc refs = take 2 (acc @ filter (resolves_empty ws) refs)"
proof (induction refs arbitrary: acc)
  case Nil
  then show ?case by simp
next
  case (Cons ref refs)
  show ?case
  proof (cases "resolves_empty ws ref")
    case True
    then obtain p where p: "get_unmerged_cell ws ref = Some p" "\<not> truthy (read_value ws p)"
      by (auto simp: resolves_empty_def split: option.splits)
    show ?thesis
    proof (cases "length (acc @ [ref]) = 2")
      case True
      with p \<open>resolves_empty ws ref\<close> show ?thesis by simp
    next
      case False
      with Cons.prems have acc: "acc = []" by (cases acc) auto
      then have "length (acc @ [ref]) < 2" by simp
      from Cons.IH [OF this] p acc \<open>resolves_empty ws ref\<close> show ?thesis by simp
    qed
  next
    case False
    with Cons show ?thesis
      by (auto simp: resolves_empty_def split: option.splits)
  qed
qed

text \<open>
  Claim C2 fails when exactly one coordinate is empty: with B9 filled and C9 empty the
  allocator returns the single coordinate C9, not the task's first two coordinates.
\<close>

theorem allocator_counterexample:
  "filter (resolves_empty ws_half) (sort (map fst (inputs task_ex))) = [''C9''] \<and>
   find_next_empty_columns ws_half task_ex = [''C9''] \<and>
   take 2 (map fst (inputs task_ex)) = [''B9'', ''C9'']"
  by code_simp

text \<open>
  Claim C2, amended.  The allocator scans the task's coordinates in ascending sorted order,
  resolves each through the merged-cell resolver and returns the first two whose resolved
  cell is empty; when exactly one is empty it returns that one alone; when none is empty
  it returns the first two coordinates in sorted order.
\<close>

theorem next_empty_columns:
  "find_next_empty_columns ws t =
     (if filter (resolves_empty ws) (sort (map fst (inputs t))) = []
      then take 2 (sort (map fst (inputs t)))
      else take 2 (filter (resolves_empty ws) (sort (map fst (inputs t)))))
   \<and> (\<forall>e. filter (resolves_empty ws) (sort (map fst (inputs t))) = [e] \<longrightarrow>
          find_next_empty_columns ws t = [e])
   \<and> (\<forall>e1 e2 es. filter (resolves_empty ws) (sort (map fst (inputs t))) = e1 # e2 # es \<longrightarrow>
          find_next_empty_columns ws t = [e1, e2])"
  by (simp add: find_next_empty_columns_def Let_def find_loop_filter)

theorem next_empty_columns_witness:
  "find_next_empty_columns ws_half task_ex = [''C9''] \<and>
   find_next_empty_columns ws_blank task_ex = [''B9'', ''C9'']"
proof -
  have a: "filter (resolves_empty ws_half) (sort (map fst (inputs task_ex))) = [''C9'']"
    by code_simp
  have b: "filter (resolves_empty ws_blank) (sort (map fst (inputs task_ex))) = ''B9'' # ''C9'' # []"
    by code_simp
  from next_empty_columns [of ws_half task_ex] next_empty_columns [of ws_blank task_ex] a b
  show ?thesis by simp
qed


section \<open>What a write pass can change\<close>

lemma is_MergedCell_ranges:
  "merged_ranges ws' = merged_ranges ws \<Longrightarrow> is_MergedCell ws' p = is_MergedCell ws p"
  by (simp add: is_MergedCell_def)

lemma get_unmerged_cell_ranges:
  "merged_ranges ws' = merged_ranges ws \<Longrightarrow> get_unmerged_cell ws' ref = get_unmerged_cell ws ref"
  by (auto simp: get_unmerged_cell_def Let_def split: sum.splits option.splits)














section \<open>The write pass\<close>

lemma set_value_ok:
  "\<not> is_MergedCell ws p \<Longrightarrow> set_value ws p v = Inr (ws\<lparr>vals := (vals ws)(p := v)\<rparr>)"
  by (simp add: set_value_def)

lemma write_pair_result:
  assumes wf: "wf_worksheet ws"
    and 1: "get_unmerged_cell ws c1 = Some p1"
    and 2: "get_unmerged_cell ws c2 = Some p2"
  shows "write_pair ui ws c1 c2 =
           Inr (ws\<lparr>vals := (vals ws)(p1 := PStr (date_string ui),
                                      p2 := PStr (py_upper (task_status ui)))\<rparr>)"
proof -
  let ?ws1 = "ws\<lparr>vals := (vals ws)(p1 := PStr (date_string ui))\<rparr>"
  have n1: "\<not> is_MergedCell ws p1" using wf 1 by (rule resolved_writable)
  have n2: "\<not> is_MergedCell ws p2" using wf 2 by (rule resolved_writable)
  have w1: "write_target ws c1 (PStr (date_string ui)) = Inr ?ws1"
    using 1 n1 by (simp add: write_target_def set_value_ok)
  have m: "merged_ranges ?ws1 = merged_ranges ws" by simp
  have g: "get_unmerged_cell ?ws1 c2 = Some p2"
    using get_unmerged_cell_ranges [OF m, of c2] 2 by simp
  have n: "\<not> is_MergedCell ?ws1 p2"
    using is_MergedCell_ranges [OF m, of p2] n2 by simp
  have w2: "write_target ?ws1 c2 (PStr (py_upper (task_status ui))) =
              Inr (?ws1\<lparr>vals := (vals ?ws1)(p2 := PStr (py_upper (task_status ui)))\<rparr>)"
    using g n by (simp add: write_target_def set_value_ok)
  show ?thesis
    unfolding write_pair_def w1 using w2 by simp
qed

lemma to_upper_digit: "isdigit c \<Longrightarrow> to_upper c = c"
  by (auto simp: to_upper_def isdigit_def islower_def Let_def)

lemma py_upper_digits: "list_all isdigit s \<Longrightarrow> py_upper s = s"
  by (induction s) (auto simp: py_upper_def to_upper_digit)

lemma list_all_drop: "list_all P xs \<Longrightarrow> list_all P (drop n xs)"
  by (auto simp: list_all_iff dest: in_set_dropD)

text \<open>
  Claim C5 fails for a task with fewer than two allocated targets: a task that is not a
  comment task and has the single coordinate B9 gets no write in new-period mode, and a
  task whose only empty coordinate is C9 gets no write in same-period mode.
\<close>

theorem write_pass_counterexample:
  "\<not> is_comment_task task_one \<and>
   sort (map fst (inputs task_one)) = [''B9''] \<and>
   get_unmerged_cell ws_blank ''B9'' = Some (9, 2) \<and>
   write_new_task ui_ex task_one ws_blank = Inr ws_blank \<and>
   \<not> is_comment_task task_ex \<and>
   find_next_empty_columns ws_half task_ex = [''C9''] \<and>
   get_unmerged_cell ws_half ''C9'' = Some (9, 3) \<and>
   write_same_task ui_ex task_ex ws_half = Inr ws_half"
proof -
  have a: "\<not> is_comment_task task_one" by code_simp
  have b: "sort (map fst (inputs task_one)) = [''B9'']" by code_simp
  have c: "get_unmerged_cell ws_blank ''B9'' = Some (9, 2)" by code_simp
  have d: "write_new_task ui_ex task_one ws_blank = Inr ws_blank"
    using a b by (simp add: write_new_task_def Let_def)
  have e: "\<not> is_comment_task task_ex" by code_simp
  have f: "find_next_empty_columns ws_half task_ex = [''C9'']" by code_simp
  have g: "get_unmerged_cell ws_half ''C9'' = Some (9, 3)" by code_simp
  have h: "write_same_task ui_ex task_ex ws_half = Inr ws_half"
    using e f by (simp add: write_same_task_def Let_def)
  from a b c d e f g h show ?thesis by blast
qed

text \<open>
  Claim C5, amended.  A comment task is skipped without any write.  For every other task
  for which the allocator of the active mode yields at least two coordinates, both
  resolved by the merged-cell resolver, the cell resolved for the first receives
  \<open>INITIALS DAY PERIOD YY\<close> (initials and period upper-cased; the year from its third
  character on, unchanged by upper-casing when it is digits) and the cell resolved for the
  second receives the upper-cased status.  A task with fewer than two allocated
  coordinates gets no write.
\<close>

theorem write_pass_task:
  assumes "wf_worksheet ws"
  shows "(is_comment_task t \<longrightarrow>
            write_new_task ui t ws = Inr ws \<and> write_same_task ui t ws = Inr ws)
       \<and> (\<not> is_comment_task t \<longrightarrow>
            (\<forall>c1 c2 cs p1 p2.
               sort (map fst (inputs t)) = c1 # c2 # cs \<and>
               get_unmerged_cell ws c1 = Some p1 \<and> get_unmerged_cell ws c2 = Some p2 \<longrightarrow>
               write_new_task ui t ws =
                 Inr (ws\<lparr>vals := (vals ws)(p1 := PStr (date_string ui),
                                            p2 := PStr (py_upper (task_status ui)))\<rparr>))
          \<and> (\<forall>c1 c2 cs p1 p2.
               find_next_empty_columns ws t = c1 # c2 # cs \<and>
               get_unmerged_cell ws c1 = Some p1 \<and> get_unmerged_cell ws c2 = Some p2 \<longrightarrow>
               write_same_task ui t ws =
                 Inr (ws\<lparr>vals := (vals ws)(p1 := PStr (date_string ui),
                                            p2 := PStr (py_upper (task_status ui)))\<rparr>))
          \<and> (length (inputs t) < 2 \<longrightarrow> write_new_task ui t ws = Inr ws)
          \<and> (length (find_next_empty_columns ws t) < 2 \<longrightarrow> write_same_task ui t ws = Inr ws))
       \<and> date_string ui =
            py_upper (initials ui) @ '' '' @ selected_day ui @ '' '' @
            py_upper (selected_month ui) @ '' '' @ drop 2 (selected_year ui)
       \<and> (list_all isdigit (selected_year ui) \<longrightarrow>
            py_upper (drop 2 (selected_year ui)) = drop 2 (selected_year ui))"
proof (intro conjI impI allI)
  assume "is_comment_task t"
  then show "write_new_task ui t ws = Inr ws" by (simp add: write_new_task_def)
next
  assume "is_comment_task t"
  then show "write_same_task ui t ws = Inr ws" by (simp add: write_same_task_def)
next
  fix c1 c2 cs p1 p2
  assume nc: "\<not> is_comment_task t"
    and h: "sort (map fst (inputs t)) = c1 # c2 # cs \<and>
            get_unmerged_cell ws c1 = Some p1 \<and> get_unmerged_cell ws c2 = Some p2"
  from h have s: "sort (map fst (inputs t)) = c1 # c2 # cs" by simp
  from h assms have "write_pair ui ws c1 c2 =
      Inr (ws\<lparr>vals := (vals ws)(p1 := PStr (date_string ui),
                                 p2 := PStr (py_upper (task_status ui)))\<rparr>)"
    by (intro write_pair_result) simp_all
  with nc s show "write_new_task ui t ws =
      Inr (ws\<lparr>vals := (vals ws)(p1 := PStr (date_string ui),
                                 p2 := PStr (py_upper (task_status ui)))\<rparr>)"
    unfolding write_new_task_def Let_def s by simp
next
  fix c1 c2 cs p1 p2
  assume nc: "\<not> is_comment_task t"
    and h: "find_next_empty_columns ws t = c1 # c2 # cs \<and>
            get_unmerged_cell ws c1 = Some p1 \<and> get_unmerged_cell ws c2 = Some p2"
  from h have s: "find_next_empty_columns ws t = c1 # c2 # cs" by simp
  from h assms have "write_pair ui ws c1 c2 =
      Inr (ws\<lparr>vals := (vals ws)(p1 := PStr (date_string ui),
                                 p2 := PStr (py_upper (task_status ui)))\<rparr>)"
    by (intro write_pair_result) simp_all
  with nc s show "write_same_task ui t ws =
      Inr (ws\<lparr>vals := (vals ws)(p1 := PStr (date_string ui),
                                 p2 := PStr (py_upper (task_status ui)))\<rparr>)"
    unfolding write_same_task_def Let_def s by simp
next
  assume "length (inputs t) < 2"
  then show "write_new_task ui t ws = Inr ws" by (simp add: write_new_task_def Let_def)
next
  assume "length (find_next_empty_columns ws t) < 2"
  then show "write_same_task ui t ws = Inr ws" by (simp add: write_same_task_def Let_def)
next
  show "date_string ui =
          py_upper (initials ui) @ '' '' @ selected_day ui @ '' '' @
          py_upper (selected_month ui) @ '' '' @ drop 2 (selected_year ui)"
    by (simp add: date_string_def)
next
  assume "list_all isdigit (selected_year ui)"
  then show "py_upper (drop 2 (selected_year ui)) = drop 2 (selected_year ui)"
    by (intro py_upper_digits list_all_drop)
qed

theorem write_pass_task_witness:
  "write_new_task ui_ex task_ex ws_blank =
     Inr (ws_blank\<lparr>vals := (vals ws_blank)((9, 2) := PStr ''AB 15 JAN 24'', (9, 3) := PStr ''OK'')\<rparr>) \<and>
   write_same_task ui_ex task_ex ws_blank =
     Inr (ws_blank\<lparr>vals := (vals ws_blank)((9, 2) := PStr ''AB 15 JAN 24'', (9, 3) := PStr ''OK'')\<rparr>)"
proof -
  have wf: "wf_worksheet ws_blank" by code_simp
  have nc: "\<not> is_comment_task task_ex" by code_simp
  have s: "sort (map fst (inputs task_ex)) = ''B9'' # ''C9'' # []" by code_simp
  have f: "find_next_empty_columns ws_blank task_ex = ''B9'' # ''C9'' # []" by code_simp
  have b: "get_unmerged_cell ws_blank ''B9'' = Some (9, 2)" by code_simp
  have c: "get_unmerged_cell ws_blank ''C9'' = Some (9, 3)" by code_simp
  have d: "date_string ui_ex = ''AB 15 JAN 24''" by code_simp
  have u: "py_upper (task_status ui_ex) = ''OK''" by code_simp
  from write_pass_task [OF wf, of task_ex ui_ex] nc s f b c
  have "write_new_task ui_ex task_ex ws_blank =
          Inr (ws_blank\<lparr>vals := (vals ws_blank)((9, 2) := PStr (date_string ui_ex),
                 (9, 3) := PStr (py_upper (task_status ui_ex)))\<rparr>)"
    and "write_same_task ui_ex task_ex ws_blank =
          Inr (ws_blank\<lparr>vals := (vals ws_blank)((9, 2) := PStr (date_string ui_ex),
                 (9, 3) := PStr (py_upper (task_status ui_ex)))\<rparr>)"
    by blast+
  then show ?thesis by (simp add: d u)
qed


section \<open>The reset pass\<close>

lemma clear_cell_ranges [simp]: "merged_ranges (clear_cell col r ws) = merged_ranges ws"
  by (simp add: clear_cell_def)

lemma clear_cell_max_row [simp]: "ws_max_row (clear_cell col r ws) = ws_max_row ws"
  by (simp add: clear_cell_def)


lemma fold_clear_cell_ranges [simp]:
  "merged_ranges (fold (clear_cell col) rs ws) = merged_ranges ws"
  by (induction rs arbitrary: ws) simp_all

lemma fold_clear_cell_max_row [simp]:
  "ws_max_row (fold (clear_cell col) rs ws) = ws_max_row ws"
  by (induction rs arbitrary: ws) simp_all






lemma first_char_Cons:
  "first_char (c # cs) acc = Inr (if c \<in> set acc then acc else acc @ [c])"
  by (simp add: first_char_def)


lemma foldM_first_char_ok:
  "[] \<notin> set refs \<Longrightarrow> \<exists>chs. foldM first_char refs acc = Inr chs"
proof (induction refs arbitrary: acc)
  case Nil
  then show ?case by simp
next
  case (Cons ref refs)
  then obtain c cs where ref: "ref = c # cs" by (cases ref) auto
  from Cons have "\<exists>chs. foldM first_char refs (if c \<in> set acc then acc else acc @ [c]) = Inr chs"
    by simp
  with ref show ?case by (simp add: first_char_Cons)
qed








lemma to_upper_upper: "isupper c \<Longrightarrow> to_upper c = c"
  by (auto simp: to_upper_def isupper_def islower_def Let_def)

lemma column_index_upper:
  "isupper c \<Longrightarrow> column_index_from_string [c] = Inr (of_char c - 64)"
  by (simp add: column_index_from_string_def py_upper_def to_upper_upper)




text \<open>
  Claim C3.  The reset pass takes the first character of each input coordinate as the
  column.  On a sheet whose input columns are AB and BA, extraction gives the task the
  coordinates AB9 and BA9; the pass reads them as the columns A, which it skips, and B.
  The cells AB9 and BA9 of the input columns keep their old values, and the cell B9,
  which is in no input column, is emptied.
\<close>

theorem reset_pass_column_slip:
  "process_worksheet 1 ws_wide = Inr sheet_wide \<and>
   first_category_refs [sheet_wide] = [''AB9'', ''BA9''] \<and>
   column_index_from_string ''AB'' = Inr 28 \<and>
   column_index_from_string ''BA'' = Inr 53 \<and>
   vals ws_wide (9, 2) = PStr ''Hall'' \<and>
   (case clear_previous_month_data [sheet_wide] [ws_wide] of
      Inl e \<Rightarrow> False
    | Inr wb' \<Rightarrow> vals (hd wb') (9, 28) = PStr ''CD 02 JAN 24'' \<and>
                 vals (hd wb') (9, 53) = PStr ''OK'' \<and>
                 vals (hd wb') (9, 2) = PNone)"
  by code_simp

section \<open>Cells that a rewrite leaves alone\<close>







section \<open>The period transition\<close>

















section \<open>Recorded input slots\<close>

lemma falsy_cases: "(\<not> truthy v) = (v \<in> {PNone, PStr [], PInt 0, PBool False})"
  by (cases v) auto

lemma colval_col_letters:
  "foldl (\<lambda>acc c. 26 * acc + (of_char c - 64)) (0::nat) (col_letters n) = n"
proof (induction n rule: col_letters.induct)
  case (1 n)
  show ?case
  proof (cases "n = 0")
    case True
    then show ?thesis by simp
  next
    case n0: False
    show ?thesis
    proof (cases "n mod 26 = 0")
      case True
      from n0 True have ge: "1 \<le> n div 26" by (metis One_nat_def Suc_leI div_greater_zero_iff mod_less neq0_conv not_less zero_less_numeral)
      have c: "(of_char (char_of (26 + 64 :: nat)) :: nat) - 64 = 26" by simp
      from True have n: "n = 26 * (n div 26)" by presburger
      have e: "col_letters n = col_letters (n div 26 - 1) @ [char_of (26 + 64 :: nat)]"
        by (subst col_letters.simps) (simp only: n0 True if_False if_True simp_thms)
      have "foldl (\<lambda>acc c. 26 * acc + (of_char c - 64)) (0::nat) (col_letters n) =
              26 * (n div 26 - 1) + 26"
        unfolding e foldl_append foldl.simps 1(1) [OF n0 True] c ..
      also have "\<dots> = n" using ge n by arith
      finally show ?thesis .
    next
      case False
      have lt: "n mod 26 + 64 < 256" by (rule less_trans [of _ 90]) simp_all
      then have c: "(of_char (char_of (n mod 26 + 64)) :: nat) - 64 = n mod 26"
        by (simp only: of_char_of mod_less)
      have e: "col_letters n = col_letters (n div 26) @ [char_of (n mod 26 + 64)]"
        by (subst col_letters.simps) (simp only: n0 False if_False simp_thms)
      have "foldl (\<lambda>acc c. 26 * acc + (of_char c - 64)) (0::nat) (col_letters n) =
              26 * (n div 26) + n mod 26"
        unfolding e foldl_append foldl.simps 1(2) [OF n0 False] c ..
      then show ?thesis by simp
    qed
  qed
qed

lemma col_letters_inj: "col_letters m = col_letters n \<Longrightarrow> m = n"
  using colval_col_letters [of m] colval_col_letters [of n] by simp



lemma iter_rows_nth:
  assumes "1 \<le> r" "r \<le> ws_max_row ws"
  shows "iter_rows ws ! (r - 1) = map (cell_at ws r) [1 ..< ws_max_column ws + 1]"
proof -
  from assms have lt: "r - 1 < length [1 ..< ws_max_row ws + 1]" by simp
  from assms have "[1 ..< ws_max_row ws + 1] ! (r - 1) = r"
    by (simp add: nth_upt del: upt_Suc)
  with lt show ?thesis
    by (simp add: iter_rows_def iter_rows_to_def del: upt_Suc)
qed

lemma column_iter_rows_to:
  assumes "cl \<in> set (concat (iter_rows_to ws n))"
  shows "1 \<le> column cl \<and> column cl \<le> ws_max_column ws"
  using assms by (auto simp: iter_rows_to_def cell_at_def)

lemma find_input_columns_range:
  assumes "c \<in> set (find_input_columns (iter_rows_to ws n))"
  shows "2 \<le> c \<and> c \<le> ws_max_column ws"
proof -
  from assms obtain cl where cl: "cl \<in> set (concat (iter_rows_to ws n))"
    and c: "c = column cl" "column cl > 1"
    by (auto simp: find_input_columns_def)
  from column_iter_rows_to [OF cl] c show ?thesis by simp
qed

lemma find_input_columns_distinct: "distinct (find_input_columns rows)"
  by (simp add: find_input_columns_def)

lemma row_get_cell:
  assumes "1 \<le> c" "c \<le> m"
  shows "row_get (map (cell_at ws r) [1 ..< m + 1]) (c - 1) = Inr (cell_at ws r c)"
proof -
  from assms have "[1 ..< m + 1] ! (c - 1) = c" by (simp del: upt_Suc)
  with assms show ?thesis by (simp add: row_get_def del: upt_Suc)
qed

lemma dict_set_fresh: "k \<notin> fst ` set d \<Longrightarrow> dict_set d k v = d @ [(k, v)]"
  by (induction d) auto

lemma get_input_step_cell:
  assumes "2 \<le> c" "c \<le> m" "m \<le> 18278"
  shows "get_input_step (map (cell_at ws r) [1 ..< m + 1]) c acc =
           Inr (dict_set acc (col_letters c @ str_nat r) (input_value (read_value ws (r, c))))"
proof -
  from assms have rg: "row_get (map (cell_at ws r) [1 ..< m + 1]) (c - 1) = Inr (cell_at ws r c)"
    by (intro row_get_cell) simp_all
  from assms have gl: "get_column_letter c = Inr (col_letters c)"
    by (simp add: get_column_letter_def)
  show ?thesis
    unfolding get_input_step_def rg by (simp add: cell_at_def gl)
qed

declare col_letters.simps [simp del] str_nat.simps [simp del]

lemma foldM_get_input:
  assumes "\<forall>c \<in> set cs. 2 \<le> c \<and> c \<le> m" "m \<le> 18278" "distinct cs"
    and "\<forall>c \<in> set cs. col_letters c @ str_nat r \<notin> fst ` set acc"
  shows "foldM (get_input_step (map (cell_at ws r) [1 ..< m + 1])) cs acc =
           Inr (acc @ map (\<lambda>c. (col_letters c @ str_nat r, input_value (read_value ws (r, c)))) cs)"
  using assms
proof (induction cs arbitrary: acc)
  case Nil
  show ?case by simp
next
  case (Cons c cs)
  let ?k = "col_letters c @ str_nat r"
  let ?acc = "acc @ [(?k, input_value (read_value ws (r, c)))]"
  from Cons.prems have c: "2 \<le> c" "c \<le> m" by simp_all
  from Cons.prems have fresh: "?k \<notin> fst ` set acc" by simp
  have step: "get_input_step (map (cell_at ws r) [1 ..< m + 1]) c acc = Inr ?acc"
    using get_input_step_cell [OF c Cons.prems(2)] dict_set_fresh [OF fresh] by simp
  have "\<forall>c' \<in> set cs. col_letters c' @ str_nat r \<notin> fst ` set ?acc"
  proof
    fix c' assume c': "c' \<in> set cs"
    with Cons.prems have "col_letters c' @ str_nat r \<notin> fst ` set acc" by simp
    moreover from c' Cons.prems(3) have "c' \<noteq> c" by auto
    then have "col_letters c' @ str_nat r \<noteq> ?k" using col_letters_inj by auto
    ultimately show "col_letters c' @ str_nat r \<notin> fst ` set ?acc" by auto
  qed
  moreover from Cons.prems have "\<forall>c \<in> set cs. 2 \<le> c \<and> c \<le> m" "distinct cs" by simp_all
  ultimately have "foldM (get_input_step (map (cell_at ws r) [1 ..< m + 1])) cs ?acc =
      Inr (?acc @ map (\<lambda>c. (col_letters c @ str_nat r, input_value (read_value ws (r, c)))) cs)"
    using Cons.prems(2) by (intro Cons.IH)
  with step show ?case by simp
qed

lemma input_value_cases:
  "input_value v =
     (if v \<in> {PNone, PStr [], PInt 0, PBool False} then DEFAULT_VALUE else py_str v)"
  using falsy_cases [of v] by (simp add: input_value_def)

lemma get_input_values_row:
  assumes "ws_max_column ws \<le> 18278" "1 \<le> r" "r \<le> ws_max_row ws"
  shows "get_input_values (find_input_columns (iter_rows_to ws n)) (iter_rows ws ! (r - 1)) =
           Inr (map (\<lambda>c. (col_letters c @ str_nat r, input_value (read_value ws (r, c))))
                  (find_input_columns (iter_rows_to ws n)))"
proof -
  have "foldM (get_input_step (map (cell_at ws r) [1 ..< ws_max_column ws + 1]))
          (find_input_columns (iter_rows_to ws n)) [] =
        Inr ([] @ map (\<lambda>c. (col_letters c @ str_nat r, input_value (read_value ws (r, c))))
                   (find_input_columns (iter_rows_to ws n)))"
    using find_input_columns_range [of _ ws n] assms(1) find_input_columns_distinct
    by (intro foldM_get_input) simp_all
  then show ?thesis
    unfolding get_input_values_def iter_rows_nth [OF assms(2,3)] by simp
qed

lemma str_nat_last: "str_nat n \<noteq> [] \<and> of_char (last (str_nat n)) = 48 + n mod 10"
proof (cases "n < 10")
  case True
  then have "(48 + n) mod 256 = 48 + n" by simp
  with True show ?thesis by (subst (1 2) str_nat.simps) simp
next
  case False
  have "(48 + n mod 10) mod 256 = 48 + n mod 10" by (simp add: mod_less)
  with False show ?thesis by (subst (1 2) str_nat.simps) simp
qed

lemma str_nat_not_sentinel: "str_nat n \<noteq> DEFAULT_VALUE" "CHR ''-'' # str_nat n \<noteq> DEFAULT_VALUE"
proof -
  have l: "of_char (last DEFAULT_VALUE) = (116::nat)" by code_simp
  have l2: "last (CHR ''-'' # str_nat n) = last (str_nat n)" using str_nat_last [of n] by simp
  have "of_char (last (str_nat n)) \<noteq> (116::nat)" using str_nat_last [of n] by simp
  with l l2 show "str_nat n \<noteq> DEFAULT_VALUE" "CHR ''-'' # str_nat n \<noteq> DEFAULT_VALUE"
    by metis+
qed

lemma py_str_sentinel:
  assumes t: "truthy v"
  shows "(py_str v = DEFAULT_VALUE) = (v = PStr DEFAULT_VALUE)"
proof (cases v)
  case PNone
  with t show ?thesis by simp
next
  case (PStr s)
  then show ?thesis by simp
next
  case (PInt i)
  then show ?thesis using str_nat_not_sentinel by (simp add: str_int_def)
next
  case (PBool b)
  have "''True'' \<noteq> DEFAULT_VALUE" by code_simp
  with t PBool show ?thesis by simp
qed

lemma input_value_sentinel:
  "(input_value v = DEFAULT_VALUE) =
     (v \<in> {PNone, PStr [], PInt 0, PBool False} \<or> v = PStr DEFAULT_VALUE)"
proof (cases "truthy v")
  case True
  with falsy_cases [of v] py_str_sentinel [OF True] show ?thesis
    by (simp add: input_value_def)
next
  case False
  have "DEFAULT_VALUE \<noteq> []" by code_simp
  with False falsy_cases [of v] show ?thesis by (auto simp: input_value_def)
qed

lemma process_row_task:
  assumes rw: "rw = cell_at ws r 1 # rest"
    and giv: "get_input_values cols rw = Inr slots"
    and lead: "truthy (read_value ws (r, 1))" "bolds ws (r, 1)" "fills ws (r, 1) \<noteq> CATEGORY_COLOR"
    and cur: "current_category st = Some cur"
  shows "process_row cols rw st =
           Inr (st\<lparr>current_category := Some (cur\<lparr>tasks := tasks cur @
              [\<lparr>name = py_strip (py_str (read_value ws (r, 1))), description = [],
                inputs = slots\<rparr>]\<rparr>)\<rparr>)"
proof -
  from giv rw have g: "get_input_values cols (cell_at ws r 1 # rest) = Inr slots" by simp
  show ?thesis
    unfolding rw process_row_def using lead cur g by (simp add: cell_at_def Let_def)
qed

text \<open>
  Claim C10 fails for a cell that holds the text ``no input'': the value is not false in
  Python, and the slot recorded for it is the sentinel all the same.
\<close>

theorem slot_sentinel_counterexample:
  "read_value ws_typed (9, 2) = PStr ''no input'' \<and>
   truthy (read_value ws_typed (9, 2)) \<and>
   DEFAULT_VALUE = ''no input'' \<and>
   process_worksheet 1 ws_typed =
     Inr \<lparr>sheet_name = ''Sheet 1'',
          categories =
            [\<lparr>cat_name = ''Fire Safety'',
              tasks = [\<lparr>name = ''Check extinguisher'', description = [],
                        inputs = [(''B9'', ''no input''), (''C9'', ''OK'')]\<rparr>]\<rparr>]\<rparr>"
  by code_simp

text \<open>
  Claim C10, amended.  For a row of the sheet and the input columns located in its first
  ten rows, extraction records one slot per input column, keyed by the coordinate of the
  cell, and a task row carries exactly these slots.  The value of a slot is the sentinel
  when the cell's value is false in Python (None, the empty string, 0 or False) and the
  string of the cell's value otherwise; so it equals the sentinel exactly when the value is
  false or is the sentinel text itself, and a cell holding 0 gives the same slot as an
  empty one.
\<close>

theorem recorded_slot_values:
  assumes "1 \<le> ws_max_column ws" "ws_max_column ws \<le> 18278" "1 \<le> r" "r \<le> ws_max_row ws"
    and cols: "cols = find_input_columns (iter_rows_to ws 10)"
    and rw: "rw = iter_rows ws ! (r - 1)"
    and slots: "slots = map (\<lambda>c. (col_letters c @ str_nat r, input_value (read_value ws (r, c)))) cols"
  shows "get_input_values cols rw = Inr slots \<and>
         (truthy (read_value ws (r, 1)) \<and> bolds ws (r, 1) \<and> fills ws (r, 1) \<noteq> CATEGORY_COLOR \<and>
          current_category st = Some cur \<longrightarrow>
            process_row cols rw st =
              Inr (st\<lparr>current_category := Some (cur\<lparr>tasks := tasks cur @
                 [\<lparr>name = py_strip (py_str (read_value ws (r, 1))), description = [],
                   inputs = slots\<rparr>]\<rparr>)\<rparr>)) \<and>
         (\<forall>v. input_value v =
               (if v \<in> {PNone, PStr [], PInt 0, PBool False} then DEFAULT_VALUE else py_str v)) \<and>
         (\<forall>v. (input_value v = DEFAULT_VALUE) =
               (v \<in> {PNone, PStr [], PInt 0, PBool False} \<or> v = PStr DEFAULT_VALUE)) \<and>
         input_value (PInt 0) = input_value PNone"
proof (intro conjI allI impI)
  show giv: "get_input_values cols rw = Inr slots"
    unfolding cols rw slots using assms(2,3,4) by (rule get_input_values_row)
  from assms(1) have "[1 ..< ws_max_column ws + 1] = 1 # [Suc 1 ..< ws_max_column ws + 1]"
    by (simp add: upt_conv_Cons del: upt_Suc)
  then have r1: "rw = cell_at ws r 1 # map (cell_at ws r) [Suc 1 ..< ws_max_column ws + 1]"
    unfolding rw iter_rows_nth [OF assms(3,4)] by simp
  show "process_row cols rw st =
          Inr (st\<lparr>current_category := Some (cur\<lparr>tasks := tasks cur @
             [\<lparr>name = py_strip (py_str (read_value ws (r, 1))), description = [],
               inputs = slots\<rparr>]\<rparr>)\<rparr>)"
    if "truthy (read_value ws (r, 1)) \<and> bolds ws (r, 1) \<and> fills ws (r, 1) \<noteq> CATEGORY_COLOR \<and>
        current_category st = Some cur"
    using r1 giv that by (intro process_row_task) simp_all
  show "input_value v =
          (if v \<in> {PNone, PStr [], PInt 0, PBool False} then DEFAULT_VALUE else py_str v)" for v
    by (rule input_value_cases)
  show "(input_value v = DEFAULT_VALUE) =
          (v \<in> {PNone, PStr [], PInt 0, PBool False} \<or> v = PStr DEFAULT_VALUE)" for v
    by (rule input_value_sentinel)
  show "input_value (PInt 0) = input_value PNone" by (simp add: input_value_def)
qed

theorem recorded_slot_values_witness:
  "read_value ws_sheet (9, 2) = PInt 0 \<and>
   get_input_values (find_input_columns (iter_rows_to ws_sheet 10)) (iter_rows ws_sheet ! 8) =
     Inr [(''B9'', ''no input''), (''C9'', ''OK'')] \<and>
   process_row (find_input_columns (iter_rows_to ws_sheet 10)) (iter_rows ws_sheet ! 8) st_open =
     Inr \<lparr>done_categories = [],
          current_category =
            Some \<lparr>cat_name = ''Fire Safety'',
                  tasks = [\<lparr>name = ''Check extinguisher'', description = [],
                            inputs = [(''B9'', ''no input''), (''C9'', ''OK'')]\<rparr>]\<rparr>\<rparr>"
proof -
  have c: "find_input_columns (iter_rows_to ws_sheet 10) = [2, 3]" by code_simp
  have s: "map (\<lambda>c. (col_letters c @ str_nat 9, input_value (read_value ws_sheet (9, c)))) [2, 3] =
             [(''B9'', ''no input''), (''C9'', ''OK'')]" by code_simp
  have v: "read_value ws_sheet (9, 2) = PInt 0" by code_simp
  have l: "truthy (read_value ws_sheet (9, 1)) \<and> bolds ws_sheet (9, 1) \<and>
           fills ws_sheet (9, 1) \<noteq> CATEGORY_COLOR" by code_simp
  have n: "py_strip (py_str (read_value ws_sheet (9, 1))) = ''Check extinguisher''" by code_simp
  have st: "current_category st_open = Some \<lparr>cat_name = ''Fire Safety'', tasks = []\<rparr>"
    by (simp add: st_open_def)
  have m: "1 \<le> ws_max_column ws_sheet" "ws_max_column ws_sheet \<le> 18278"
          "(1::nat) \<le> 9" "9 \<le> ws_max_row ws_sheet"
    by (simp_all add: ws_sheet_def)
  note t = recorded_slot_values [OF m c [symmetric] refl s [symmetric],
      of st_open "\<lparr>cat_name = ''Fire Safety'', tasks = []\<rparr>"]
  from t have g: "get_input_values [2, 3] (iter_rows ws_sheet ! (9 - 1)) =
      Inr [(''B9'', ''no input''), (''C9'', ''OK'')]" by (rule conjunct1)
  from t [THEN conjunct2, THEN conjunct1] l st
  have p: "process_row [2, 3] (iter_rows ws_sheet ! (9 - 1)) st_open =
      Inr (st_open\<lparr>current_category := Some (\<lparr>cat_name = ''Fire Safety'', tasks = []\<rparr>\<lparr>tasks :=
         tasks \<lparr>cat_name = ''Fire Safety'', tasks = []\<rparr> @
         [\<lparr>name = py_strip (py_str (read_value ws_sheet (9, 1))), description = [],
           inputs = [(''B9'', ''no input''), (''C9'', ''OK'')]\<rparr>]\<rparr>)\<rparr>)" by blast
  from v g p show ?thesis unfolding c n by (simp add: st_open_def)
qed

end
